theory Spec2Isabelle
  imports Main
begin

section \<open>Data model of \<^verbatim>\<open>backend/main.py\<close>\<close>

text \<open>
  A calendar date is its day number (the proleptic Gregorian ordinal that Python's
  \<^verbatim>\<open>date.toordinal\<close> gives), so \<^verbatim>\<open>d - timedelta(days=1)\<close> is \<open>d - 1\<close> and
  the order of dates is the order of integers. The bounds of Python's \<^verbatim>\<open>date\<close>
  (years 1 to 9999) are not part of the model.
\<close>

type_synonym date = int

text \<open>The two mapped classes; a row of a table is a record.\<close>

record Habit =
  id :: int
  name :: string
  emoji :: string
  created_at :: date

record Completion =
  id :: int
  habit_id :: int
  completed_date :: date

text \<open>
  The database behind a \<^verbatim>\<open>Session\<close>: the rows of the two tables, in insertion order.
  Every handler commits before it returns, so a handler maps a database to a database.
\<close>

record Session =
  habits :: "Habit list"
  completions :: "Completion list"

text \<open>The pydantic request and response models.\<close>

record HabitCreate =
  name :: string
  emoji :: string

record HabitUpdate =
  name :: string
  emoji :: string

record HabitResponse =
  id :: int
  name :: string
  emoji :: string
  current_streak :: int
  created_at :: date

record CompletionCreate =
  habit_id :: int
  completed_date :: date

text \<open>
  \<^verbatim>\<open>HTTPException(status_code, detail)\<close> as a value; \<open>RequestValidationError\<close> is what
  FastAPI answers (status 422) when a body does not fit its pydantic model.
\<close>

datatype error = HTTPException nat string | RequestValidationError

fun status_code :: "error \<Rightarrow> nat" where
  "status_code (HTTPException code detail) = code"
| "status_code RequestValidationError = 422"

section \<open>Streak calculation\<close>

text \<open>
  The \<^verbatim>\<open>for completion in completions\<close> loop of \<^verbatim>\<open>calculate_streak\<close>, with its three
  branches in the order of the source: count and step the cursor back, \<^verbatim>\<open>continue\<close>,
  \<^verbatim>\<open>break\<close>. The loop state is \<open>streak\<close> and \<open>current_date\<close>.
\<close>

fun streak_loop :: "Completion list \<Rightarrow> int \<Rightarrow> date \<Rightarrow> int" where
  "streak_loop [] streak current_date = streak"
| "streak_loop (completion # rest) streak current_date =
     (if Completion.completed_date completion = current_date
        then streak_loop rest (streak + 1) (current_date - 1)
      else if Completion.completed_date completion = current_date
        then streak_loop rest streak current_date
      else streak)"

text \<open>
  The query: the rows of the habit, latest date first. Rows of equal date come in an
  order the database chooses; the loop reads dates only.
\<close>

definition query_completions :: "int \<Rightarrow> Session \<Rightarrow> Completion list" where
  "query_completions hid db =
     rev (sort_key Completion.completed_date
            (filter (\<lambda>c. Completion.habit_id c = hid) (completions db)))"

definition calculate_streak :: "int \<Rightarrow> Session \<Rightarrow> date \<Rightarrow> int" where
  "calculate_streak hid db today =
     (let cs = query_completions hid db
      in if cs = [] then 0 else streak_loop cs 0 today)"

text \<open>The dates on which a habit has a completion.\<close>

definition completion_dates :: "int \<Rightarrow> Session \<Rightarrow> date set" where
  "completion_dates hid db =
     set (map Completion.completed_date
            (filter (\<lambda>c. Completion.habit_id c = hid) (completions db)))"

text \<open>
  The loop as C9 describes it: the counting branch and the \<^verbatim>\<open>break\<close> branch only.
\<close>

fun streak_loop_simplified :: "Completion list \<Rightarrow> int \<Rightarrow> date \<Rightarrow> int" where
  "streak_loop_simplified [] streak current_date = streak"
| "streak_loop_simplified (completion # rest) streak current_date =
     (if Completion.completed_date completion = current_date
        then streak_loop_simplified rest (streak + 1) (current_date - 1)
      else streak)"

definition calculate_streak_simplified :: "int \<Rightarrow> Session \<Rightarrow> date \<Rightarrow> int" where
  "calculate_streak_simplified hid db today =
     (let cs = query_completions hid db
      in if cs = [] then 0 else streak_loop_simplified cs 0 today)"

text \<open>
  Which branch each iteration of the loop of \<^verbatim>\<open>calculate_streak\<close> takes: the same
  tests in the same order, recording the branch instead of the count.
\<close>

datatype branch = Count | Continue | Break

fun streak_loop_trace :: "Completion list \<Rightarrow> date \<Rightarrow> branch list" where
  "streak_loop_trace [] current_date = []"
| "streak_loop_trace (completion # rest) current_date =
     (if Completion.completed_date completion = current_date
        then Count # streak_loop_trace rest (current_date - 1)
      else if Completion.completed_date completion = current_date
        then Continue # streak_loop_trace rest current_date
      else [Break])"

section \<open>The request handlers\<close>

text \<open>
  \<^verbatim>\<open>.first()\<close> on a filtered query is \<open>find\<close>: the first row that passes, or
  \<open>None\<close>. A handler takes the database and returns the database after its commit
  together with its answer: \<open>Inl\<close> the exception raised, \<open>Inr\<close> the value returned.
  \<^verbatim>\<open>date.today()\<close> is the parameter \<open>today\<close>.
\<close>

text \<open>
  The primary key of a new row is chosen by the database. \<^verbatim>\<open>DATABASE_URL\<close> defaults to
  SQLite, whose integer primary key is one more than the largest key in the table, and 1
  in an empty table.
\<close>

definition next_id :: "int list \<Rightarrow> int" where
  "next_id ids = (if ids = [] then 1 else Max (set ids) + 1)"

text \<open>The default of \<^verbatim>\<open>HabitCreate.emoji\<close>: U+2B50, as its three UTF-8 bytes.\<close>

definition default_emoji :: string where
  "default_emoji = [CHR 0xE2, CHR 0xAD, CHR 0x90]"

text \<open>
  The body of \<^verbatim>\<open>POST /api/habits\<close> as FastAPI hands it to pydantic: a parsed JSON
  value. The members of an object are kept in the order of the text; of two members of
  one name the later one counts, as in the dict that \<^verbatim>\<open>json.loads\<close> builds. A number
  is represented by an integer: a field declared \<^verbatim>\<open>str\<close> refuses every number alike.
\<close>

datatype json =
    JNull
  | JBool bool
  | JNumber int
  | JString string
  | JArray "json list"
  | JObject "(string \<times> json) list"

definition json_get :: "string \<Rightarrow> (string \<times> json) list \<Rightarrow> json option" where
  "json_get key members = map_of (rev members) key"

text \<open>
  A field declared \<^verbatim>\<open>str\<close>: a value that is present must be a JSON string, whatever the
  default; an absent field takes the default when the class declares one and is
  refused otherwise. No other constraint (such as a minimal length) is declared.
\<close>

fun validate_str :: "json option \<Rightarrow> string option \<Rightarrow> error + string" where
  "validate_str (Some (JString s)) dflt = Inr s"
| "validate_str (Some v) dflt = Inl RequestValidationError"
| "validate_str None (Some d) = Inr d"
| "validate_str None None = Inl RequestValidationError"

text \<open>
  \<^verbatim>\<open>class HabitCreate(BaseModel)\<close>: the body must be an object, \<^verbatim>\<open>name: str\<close> is
  required and \<^verbatim>\<open>emoji: str\<close> defaults to the star; members of other names are ignored.
\<close>

definition validate_HabitCreate :: "json \<Rightarrow> error + HabitCreate" where
  "validate_HabitCreate body =
     (case body of
        JObject members \<Rightarrow>
          (case validate_str (json_get ''name'' members) None of
             Inl e \<Rightarrow> Inl e
           | Inr n \<Rightarrow>
               (case validate_str (json_get ''emoji'' members) (Some default_emoji) of
                  Inl e \<Rightarrow> Inl e
                | Inr em \<Rightarrow> Inr \<lparr>HabitCreate.name = n, emoji = em\<rparr>))
      | _ \<Rightarrow> Inl RequestValidationError)"

definition get_habits :: "Session \<Rightarrow> date \<Rightarrow> HabitResponse list" where
  "get_habits db today =
     map (\<lambda>habit. \<lparr>HabitResponse.id = Habit.id habit,
                    name = Habit.name habit,
                    emoji = Habit.emoji habit,
                    current_streak = calculate_streak (Habit.id habit) db today,
                    created_at = Habit.created_at habit\<rparr>)
         (habits db)"

definition create_habit :: "HabitCreate \<Rightarrow> Session \<Rightarrow> date \<Rightarrow> Session \<times> HabitResponse" where
  "create_habit habit db today =
     (let db_habit = \<lparr>Habit.id = next_id (map Habit.id (habits db)),
                      name = HabitCreate.name habit,
                      emoji = HabitCreate.emoji habit,
                      created_at = today\<rparr>
      in (db\<lparr>habits := habits db @ [db_habit]\<rparr>,
          \<lparr>HabitResponse.id = Habit.id db_habit,
           name = Habit.name db_habit,
           emoji = Habit.emoji db_habit,
           current_streak = 0,
           created_at = Habit.created_at db_habit\<rparr>))"

text \<open>The route: validation of the body, then the handler.\<close>

definition post_habits ::
  "json \<Rightarrow> Session \<Rightarrow> date \<Rightarrow> Session \<times> (error + HabitResponse)" where
  "post_habits body db today =
     (case validate_HabitCreate body of
        Inl e \<Rightarrow> (db, Inl e)
      | Inr habit \<Rightarrow> (case create_habit habit db today of (db', r) \<Rightarrow> (db', Inr r)))"

definition update_habit ::
  "int \<Rightarrow> HabitUpdate \<Rightarrow> Session \<Rightarrow> date \<Rightarrow> Session \<times> (error + HabitResponse)" where
  "update_habit hid habit db today =
     (case find (\<lambda>h. Habit.id h = hid) (habits db) of
        None \<Rightarrow> (db, Inl (HTTPException 404 ''Habit not found''))
      | Some db_habit \<Rightarrow>
          (let db_habit' = db_habit\<lparr>Habit.name := HabitUpdate.name habit,
                                    Habit.emoji := HabitUpdate.emoji habit\<rparr>;
               db' = db\<lparr>habits :=
                         map (\<lambda>h. if Habit.id h = Habit.id db_habit
                                   then h\<lparr>Habit.name := HabitUpdate.name habit,
                                          Habit.emoji := HabitUpdate.emoji habit\<rparr>
                                   else h)
                             (habits db)\<rparr>
           in (db',
               Inr \<lparr>HabitResponse.id = Habit.id db_habit',
                    name = Habit.name db_habit',
                    emoji = Habit.emoji db_habit',
                    current_streak = calculate_streak (Habit.id db_habit') db' today,
                    created_at = Habit.created_at db_habit'\<rparr>)))"

text \<open>
  \<^verbatim>\<open>db.delete(db_habit)\<close>: the relationship \<^verbatim>\<open>Habit.completions\<close> is declared with
  \<^verbatim>\<open>cascade="all, delete-orphan"\<close>, so the session loads the habit's completions (the
  rows whose \<^verbatim>\<open>habit_id\<close> is the habit's id), deletes each of them by primary key, and
  then deletes the habit's row by primary key.
\<close>

definition delete_habit :: "int \<Rightarrow> Session \<Rightarrow> Session \<times> (error + string)" where
  "delete_habit hid db =
     (case find (\<lambda>h. Habit.id h = hid) (habits db) of
        None \<Rightarrow> (db, Inl (HTTPException 404 ''Habit not found''))
      | Some db_habit \<Rightarrow>
          (let children = filter (\<lambda>c. Completion.habit_id c = Habit.id db_habit)
                                 (completions db)
           in (\<lparr>habits = filter (\<lambda>h. Habit.id h \<noteq> Habit.id db_habit) (habits db),
                completions =
                  filter (\<lambda>c. Completion.id c \<notin> set (map Completion.id children))
                         (completions db)\<rparr>,
               Inr ''Habit deleted successfully'')))"

definition get_completions :: "Session \<Rightarrow> Completion list" where
  "get_completions db = completions db"

definition create_completion ::
  "CompletionCreate \<Rightarrow> Session \<Rightarrow> Session \<times> (error + Completion)" where
  "create_completion completion db =
     (case find (\<lambda>h. Habit.id h = CompletionCreate.habit_id completion) (habits db) of
        None \<Rightarrow> (db, Inl (HTTPException 404 ''Habit not found''))
      | Some habit \<Rightarrow>
          (case find (\<lambda>c. Completion.habit_id c = CompletionCreate.habit_id completion
                          \<and> Completion.completed_date c
                              = CompletionCreate.completed_date completion)
                     (completions db) of
             Some existing \<Rightarrow> (db, Inl (HTTPException 400 ''Completion already exists''))
           | None \<Rightarrow>
               (let db_completion =
                      \<lparr>Completion.id = next_id (map Completion.id (completions db)),
                       habit_id = CompletionCreate.habit_id completion,
                       completed_date = CompletionCreate.completed_date completion\<rparr>
                in (db\<lparr>completions := completions db @ [db_completion]\<rparr>,
                    Inr db_completion))))"

definition delete_completion :: "int \<Rightarrow> Session \<Rightarrow> Session \<times> (error + string)" where
  "delete_completion cid db =
     (case find (\<lambda>c. Completion.id c = cid) (completions db) of
        None \<Rightarrow> (db, Inl (HTTPException 404 ''Completion not found''))
      | Some db_completion \<Rightarrow>
          (db\<lparr>completions :=
                filter (\<lambda>c. Completion.id c \<noteq> Completion.id db_completion)
                       (completions db)\<rparr>,
           Inr ''Completion deleted successfully''))"

section \<open>Constraints of the schema\<close>

text \<open>\<^verbatim>\<open>primary_key=True\<close> on both \<^verbatim>\<open>id\<close> columns: no two rows of a table share an id.\<close>

definition primary_keys :: "Session \<Rightarrow> bool" where
  "primary_keys db \<longleftrightarrow>
     distinct (map Habit.id (habits db)) \<and> distinct (map Completion.id (completions db))"

text \<open>\<^verbatim>\<open>ForeignKey("habits.id")\<close>: every completion belongs to a habit of the table.\<close>

definition foreign_keys :: "Session \<Rightarrow> bool" where
  "foreign_keys db \<longleftrightarrow>
     (\<forall>c \<in> set (completions db). Completion.habit_id c \<in> set (map Habit.id (habits db)))"

text \<open>The invariant the duplicate check of \<^verbatim>\<open>create_completion\<close> keeps: one completion per habit and day.\<close>

definition unique_dates :: "Session \<Rightarrow> bool" where
  "unique_dates db \<longleftrightarrow>
     distinct (map (\<lambda>c. (Completion.habit_id c, Completion.completed_date c)) (completions db))"

text \<open>The three constraints together.\<close>

definition schema_constraints :: "Session \<Rightarrow> bool" where
  "schema_constraints db \<longleftrightarrow> primary_keys db \<and> foreign_keys db \<and> unique_dates db"

section \<open>Properties of the streak calculation\<close>

lemma set_query_completions:
  "set (query_completions hid db) =
     set (filter (\<lambda>c. Completion.habit_id c = hid) (completions db))"
  by (simp add: query_completions_def)

lemma dates_query_completions:
  "Completion.completed_date ` set (query_completions hid db) = completion_dates hid db"
  by (simp add: set_query_completions completion_dates_def)

lemma streak_loop_no_match:
  "current_date \<notin> Completion.completed_date ` set cs \<Longrightarrow>
     streak_loop cs streak current_date = streak"
  by (cases cs) auto

lemma calculate_streak_no_today:
  "today \<notin> completion_dates hid db \<Longrightarrow> calculate_streak hid db today = 0"
  using streak_loop_no_match [of today "query_completions hid db" 0]
  by (simp add: calculate_streak_def Let_def dates_query_completions)

text \<open>
  The loop reads the dates of the rows and nothing else, so the order in which the
  database returns rows of equal date does not matter.
\<close>

lemma streak_loop_dates_only:
  "map Completion.completed_date cs = map Completion.completed_date cs' \<Longrightarrow>
     streak_loop cs streak current_date = streak_loop cs' streak current_date"
proof (induction cs arbitrary: cs' streak current_date)
  case Nil
  then show ?case by simp
next
  case (Cons c cs)
  then obtain c' rest where cs': "cs' = c' # rest"
    and head: "Completion.completed_date c = Completion.completed_date c'"
    and tail: "map Completion.completed_date cs = map Completion.completed_date rest"
    by (cases cs') auto
  from Cons.IH [OF tail] head show ?case by (simp add: cs')
qed

text \<open>The \<^verbatim>\<open>continue\<close> branch is never taken, and dropping it changes nothing.\<close>

lemma streak_loop_simplified_eq:
  "streak_loop cs streak current_date = streak_loop_simplified cs streak current_date"
  by (induction cs streak current_date rule: streak_loop.induct) simp_all

lemma streak_loop_trace_no_continue:
  "Continue \<notin> set (streak_loop_trace cs current_date)"
  by (induction cs current_date rule: streak_loop_trace.induct) simp_all

text \<open>
  What the loop computes when the rows come latest first, no two of one date, and none is
  dated after the cursor: the length of the unbroken run of days that ends at the cursor.
\<close>

lemma streak_loop_run:
  "sorted_wrt (>) (map Completion.completed_date cs) \<Longrightarrow>
   \<forall>d \<in> set (map Completion.completed_date cs). d \<le> current_date \<Longrightarrow>
   \<exists>k. streak_loop cs streak current_date = streak + int k
     \<and> (\<forall>i<k. current_date - int i \<in> set (map Completion.completed_date cs))
     \<and> current_date - int k \<notin> set (map Completion.completed_date cs)"
proof (induction cs arbitrary: streak current_date)
  case Nil
  then show ?case by simp
next
  case (Cons c cs)
  let ?ds = "map Completion.completed_date cs"
  from Cons.prems have below: "\<forall>d \<in> set ?ds. d < Completion.completed_date c"
    and desc: "sorted_wrt (>) ?ds" and head: "Completion.completed_date c \<le> current_date"
    by auto
  show ?case
  proof (cases "Completion.completed_date c = current_date")
    case True
    with below have "\<forall>d \<in> set ?ds. d \<le> current_date - 1" by auto
    from Cons.IH [OF desc this, of "streak + 1"] obtain k where
      k: "streak_loop cs (streak + 1) (current_date - 1) = streak + 1 + int k"
         "\<forall>i<k. current_date - 1 - int i \<in> set ?ds"
         "current_date - 1 - int k \<notin> set ?ds"
      by blast
    have "\<forall>i<Suc k. current_date - int i \<in> set (map Completion.completed_date (c # cs))"
    proof (intro allI impI)
      fix i assume "i < Suc k"
      show "current_date - int i \<in> set (map Completion.completed_date (c # cs))"
      proof (cases i)
        case 0
        with True show ?thesis by simp
      next
        case (Suc j)
        with \<open>i < Suc k\<close> k(2) have "current_date - 1 - int j \<in> set ?ds" by simp
        with Suc show ?thesis by (simp add: algebra_simps)
      qed
    qed
    moreover have "current_date - int (Suc k) \<notin> set (map Completion.completed_date (c # cs))"
      using k(3) True by (simp add: algebra_simps)
    moreover have "streak_loop (c # cs) streak current_date = streak + int (Suc k)"
      using True k(1) by simp
    ultimately show ?thesis by blast
  next
    case False
    with head below have "current_date \<notin> set (map Completion.completed_date (c # cs))"
      by auto
    moreover from False have "streak_loop (c # cs) streak current_date = streak + int 0"
      by simp
    ultimately show ?thesis by (intro exI [of _ 0]) simp
  qed
qed

lemma distinct_dates_of_habit:
  assumes "unique_dates db"
  shows "distinct (map Completion.completed_date
                     (filter (\<lambda>c. Completion.habit_id c = hid) (completions db)))"
proof -
  let ?ys = "filter (\<lambda>c. Completion.habit_id c = hid) (completions db)"
  from assms have "distinct (map (\<lambda>c. (Completion.habit_id c, Completion.completed_date c)) ?ys)"
    unfolding unique_dates_def by (rule distinct_map_filter)
  then have d: "distinct ?ys"
    and inj: "inj_on (\<lambda>c. (Completion.habit_id c, Completion.completed_date c)) (set ?ys)"
    by (simp_all add: distinct_map)
  have "inj_on Completion.completed_date (set ?ys)"
  proof (rule inj_onI)
    fix x y assume "x \<in> set ?ys" "y \<in> set ?ys"
      and "Completion.completed_date x = Completion.completed_date y"
    then show "x = y" using inj by (auto dest: inj_onD)
  qed
  with d show ?thesis by (simp add: distinct_map)
qed

lemma dates_query_sorted:
  "unique_dates db \<Longrightarrow>
   sorted_wrt (>) (map Completion.completed_date (query_completions hid db))"
proof -
  assume u: "unique_dates db"
  let ?ys = "filter (\<lambda>c. Completion.habit_id c = hid) (completions db)"
  let ?ss = "map Completion.completed_date (sort_key Completion.completed_date ?ys)"
  have "distinct ?ss"
    using distinct_dates_of_habit [OF u, of hid] by (simp add: distinct_map)
  moreover have "sorted ?ss" by simp
  ultimately have "sorted_wrt (<) ?ss" by (simp add: strict_sorted_iff)
  then have "sorted_wrt (>) (rev ?ss)" by (simp add: sorted_wrt_rev)
  then show ?thesis by (simp add: query_completions_def rev_map)
qed

text \<open>
  So with one completion per day and none dated after today, \<^verbatim>\<open>calculate_streak\<close> is the
  number \<open>k\<close> of consecutive days, today included and counting back, that have a
  completion; day \<open>today - k\<close> is the first without one.
\<close>

lemma calculate_streak_run:
  assumes "unique_dates db"
    and "\<forall>d \<in> completion_dates hid db. d \<le> today"
  shows "\<exists>k. calculate_streak hid db today = int k
           \<and> (\<forall>i<k. today - int i \<in> completion_dates hid db)
           \<and> today - int k \<notin> completion_dates hid db"
proof -
  let ?cs = "query_completions hid db"
  have dates: "set (map Completion.completed_date ?cs) = completion_dates hid db"
    using dates_query_completions [of hid db] by simp
  from streak_loop_run [OF dates_query_sorted [OF assms(1)], of hid today 0] assms(2)
  obtain k where k: "streak_loop ?cs 0 today = int k"
     "\<forall>i<k. today - int i \<in> completion_dates hid db"
     "today - int k \<notin> completion_dates hid db"
    unfolding dates by auto
  have "calculate_streak hid db today = streak_loop ?cs 0 today"
    by (simp add: calculate_streak_def Let_def)
  with k show ?thesis by auto
qed

section \<open>Properties of the handlers\<close>

lemma next_id_fresh: "next_id ids \<notin> set ids"
proof (cases "ids = []")
  case True
  then show ?thesis by simp
next
  case False
  show ?thesis
  proof
    assume "next_id ids \<in> set ids"
    then have "next_id ids \<le> Max (set ids)" by simp
    with False show False by (simp add: next_id_def)
  qed
qed

lemma find_None_ids: "find (\<lambda>x. f x = k) xs = None \<longleftrightarrow> k \<notin> set (map f xs)"
  by (auto simp: find_None_iff)

lemma find_Some_ids:
  "k \<in> set (map f xs) \<Longrightarrow> \<exists>x. find (\<lambda>x. f x = k) xs = Some x \<and> x \<in> set xs \<and> f x = k"
proof -
  assume "k \<in> set (map f xs)"
  then have "find (\<lambda>x. f x = k) xs \<noteq> None" by (simp add: find_None_ids)
  then obtain x where x: "find (\<lambda>x. f x = k) xs = Some x" by blast
  then have "x \<in> set xs \<and> f x = k" by (auto simp: find_Some_iff)
  with x show ?thesis by blast
qed

text \<open>
  \<^verbatim>\<open>POST /api/habits\<close> is refused exactly when validation refuses the body, and then
  nothing is stored. A present \<^verbatim>\<open>emoji\<close> that is not a string is refused like a
  missing name.
\<close>

lemma post_habits_refused:
  "validate_HabitCreate body = Inl e \<Longrightarrow> post_habits body db today = (db, Inl e)"
  by (simp add: post_habits_def)

lemma post_habits_accepted:
  "validate_HabitCreate body = Inr habit \<Longrightarrow>
     \<exists>db' r. post_habits body db today = (db', Inr r)"
  by (simp add: post_habits_def split: prod.splits)

lemma validate_HabitCreate_emoji_null:
  "validate_HabitCreate (JObject [(''name'', JString ''x''), (''emoji'', JNull)])
     = Inl RequestValidationError"
  by (simp add: validate_HabitCreate_def json_get_def)

lemma validate_HabitCreate_no_name:
  "json_get ''name'' members = None \<Longrightarrow>
     validate_HabitCreate (JObject members) = Inl RequestValidationError"
  by (simp add: validate_HabitCreate_def)

text \<open>Every handler keeps the constraints of the schema.\<close>

lemma create_habit_constraints:
  "schema_constraints db \<Longrightarrow> schema_constraints (fst (create_habit habit db today))"
  using next_id_fresh [of "map Habit.id (habits db)"]
  by (auto simp: schema_constraints_def primary_keys_def foreign_keys_def unique_dates_def
        create_habit_def Let_def)

lemma update_habit_constraints:
  "schema_constraints db \<Longrightarrow> schema_constraints (fst (update_habit hid habit db today))"
proof (cases "find (\<lambda>h. Habit.id h = hid) (habits db)")
  case None
  assume "schema_constraints db"
  with None show ?thesis by (simp add: update_habit_def)
next
  case (Some h)
  assume c: "schema_constraints db"
  let ?upd = "\<lambda>x. if Habit.id x = Habit.id h
                   then x\<lparr>Habit.name := HabitUpdate.name habit,
                          Habit.emoji := HabitUpdate.emoji habit\<rparr>
                   else x"
  have run: "fst (update_habit hid habit db today) = db\<lparr>habits := map ?upd (habits db)\<rparr>"
    using Some by (simp add: update_habit_def Let_def)
  have ids: "map (Habit.id \<circ> ?upd) (habits db) = map Habit.id (habits db)"
    by (rule nth_equalityI) simp_all
  have "primary_keys (db\<lparr>habits := map ?upd (habits db)\<rparr>) = primary_keys db"
    "foreign_keys (db\<lparr>habits := map ?upd (habits db)\<rparr>) = foreign_keys db"
    "unique_dates (db\<lparr>habits := map ?upd (habits db)\<rparr>) = unique_dates db"
    unfolding primary_keys_def foreign_keys_def unique_dates_def
    by (simp_all add: ids)
  with c show ?thesis by (simp only: run schema_constraints_def)
qed

lemma delete_habit_constraints:
  "schema_constraints db \<Longrightarrow> schema_constraints (fst (delete_habit hid db))"
proof (cases "find (\<lambda>h. Habit.id h = hid) (habits db)")
  case None
  assume "schema_constraints db"
  with None show ?thesis by (simp add: delete_habit_def)
next
  case (Some h)
  assume c: "schema_constraints db"
  let ?children = "filter (\<lambda>c. Completion.habit_id c = Habit.id h) (completions db)"
  let ?keep = "\<lambda>c. Completion.id c \<notin> set (map Completion.id ?children)"
  let ?db' = "\<lparr>habits = filter (\<lambda>x. Habit.id x \<noteq> Habit.id h) (habits db),
              completions = filter ?keep (completions db)\<rparr>"
  have run: "fst (delete_habit hid db) = ?db'"
    using Some by (simp add: delete_habit_def Let_def)
  from c have "primary_keys ?db'"
    by (simp add: schema_constraints_def primary_keys_def distinct_map_filter)
  moreover from c have "unique_dates ?db'"
    by (simp add: schema_constraints_def unique_dates_def distinct_map_filter)
  moreover have "foreign_keys ?db'"
    unfolding foreign_keys_def
  proof
    fix x assume "x \<in> set (completions ?db')"
    then have x: "x \<in> set (completions db)" and "?keep x" by simp_all
    then have "Completion.habit_id x \<noteq> Habit.id h" by auto
    moreover from c x have "Completion.habit_id x \<in> set (map Habit.id (habits db))"
      by (simp add: schema_constraints_def foreign_keys_def)
    ultimately show "Completion.habit_id x \<in> set (map Habit.id (habits ?db'))" by auto
  qed
  ultimately show ?thesis by (simp add: run schema_constraints_def)
qed

lemma create_completion_constraints:
  "schema_constraints db \<Longrightarrow> schema_constraints (fst (create_completion completion db))"
proof -
  assume c: "schema_constraints db"
  let ?h = "CompletionCreate.habit_id completion"
  let ?d = "CompletionCreate.completed_date completion"
  let ?P = "\<lambda>c. Completion.habit_id c = ?h \<and> Completion.completed_date c = ?d"
  show ?thesis
  proof (cases "find (\<lambda>h. Habit.id h = ?h) (habits db) \<noteq> None \<and> find ?P (completions db) = None")
    case False
    with c show ?thesis by (auto simp: create_completion_def split: option.splits)
  next
    case True
    then have habit: "?h \<in> set (map Habit.id (habits db))"
      by (simp add: find_None_ids)
    from True have "\<forall>x \<in> set (completions db). \<not> ?P x"
      by (simp add: find_None_iff)
    then have nodup: "(?h, ?d) \<notin> set (map (\<lambda>c. (Completion.habit_id c, Completion.completed_date c))
                                     (completions db))"
      by auto
    let ?new = "\<lparr>Completion.id = next_id (map Completion.id (completions db)),
                 habit_id = ?h, completed_date = ?d\<rparr>"
    from True have run: "fst (create_completion completion db)
                 = db\<lparr>completions := completions db @ [?new]\<rparr>"
      by (auto simp: create_completion_def Let_def split: option.splits)
    from c habit nodup next_id_fresh [of "map Completion.id (completions db)"]
    show ?thesis
      by (auto simp: run schema_constraints_def primary_keys_def foreign_keys_def unique_dates_def)
  qed
qed

lemma delete_completion_constraints:
  "schema_constraints db \<Longrightarrow> schema_constraints (fst (delete_completion cid db))"
  by (auto simp: schema_constraints_def primary_keys_def foreign_keys_def unique_dates_def
        delete_completion_def distinct_map_filter split: option.splits)

section \<open>The claims\<close>

text \<open>
  C1, as the claim states it, fails: with one completion, dated the day before today, the
  first row the loop reads is not dated today, the loop breaks and the streak is 0,
  while the streak counted from the day before is 1.
\<close>

theorem calculate_streak_grace_counterexample:
  "(100::int) \<notin> completion_dates 1
       \<lparr>habits = [\<lparr>Habit.id = 1, name = ''Run'', emoji = ''*'', created_at = 90\<rparr>],
        completions = [\<lparr>Completion.id = 1, habit_id = 1, completed_date = 99\<rparr>]\<rparr>
   \<and> (100::int) - 1 \<in> completion_dates 1
       \<lparr>habits = [\<lparr>Habit.id = 1, name = ''Run'', emoji = ''*'', created_at = 90\<rparr>],
        completions = [\<lparr>Completion.id = 1, habit_id = 1, completed_date = 99\<rparr>]\<rparr>
   \<and> calculate_streak 1
       \<lparr>habits = [\<lparr>Habit.id = 1, name = ''Run'', emoji = ''*'', created_at = 90\<rparr>],
        completions = [\<lparr>Completion.id = 1, habit_id = 1, completed_date = 99\<rparr>]\<rparr> 100 = 0
   \<and> calculate_streak 1
       \<lparr>habits = [\<lparr>Habit.id = 1, name = ''Run'', emoji = ''*'', created_at = 90\<rparr>],
        completions = [\<lparr>Completion.id = 1, habit_id = 1, completed_date = 99\<rparr>]\<rparr> (100 - 1) = 1"
  by (simp add: completion_dates_def calculate_streak_def query_completions_def)

text \<open>
  C1, amended. A habit with no completion dated today but one dated the day before gets
  no grace step: its streak is 0.
\<close>

theorem calculate_streak_no_grace:
  "today \<notin> completion_dates hid db \<Longrightarrow> today - 1 \<in> completion_dates hid db \<Longrightarrow>
     calculate_streak hid db today = 0"
  by (rule calculate_streak_no_today)

theorem calculate_streak_no_grace_witness:
  "(100::int) \<notin> completion_dates 1
       \<lparr>habits = [\<lparr>Habit.id = 1, name = ''Run'', emoji = ''*'', created_at = 90\<rparr>],
        completions = [\<lparr>Completion.id = 1, habit_id = 1, completed_date = 98\<rparr>,
                       \<lparr>Completion.id = 2, habit_id = 1, completed_date = 99\<rparr>]\<rparr>
   \<and> (100::int) - 1 \<in> completion_dates 1
       \<lparr>habits = [\<lparr>Habit.id = 1, name = ''Run'', emoji = ''*'', created_at = 90\<rparr>],
        completions = [\<lparr>Completion.id = 1, habit_id = 1, completed_date = 98\<rparr>,
                       \<lparr>Completion.id = 2, habit_id = 1, completed_date = 99\<rparr>]\<rparr>
   \<and> calculate_streak 1
       \<lparr>habits = [\<lparr>Habit.id = 1, name = ''Run'', emoji = ''*'', created_at = 90\<rparr>],
        completions = [\<lparr>Completion.id = 1, habit_id = 1, completed_date = 98\<rparr>,
                       \<lparr>Completion.id = 2, habit_id = 1, completed_date = 99\<rparr>]\<rparr> 100 = 0"
  using calculate_streak_no_grace
    [of 100 1 "\<lparr>habits = [\<lparr>Habit.id = 1, name = ''Run'', emoji = ''*'', created_at = 90\<rparr>],
                 completions = [\<lparr>Completion.id = 1, habit_id = 1, completed_date = 98\<rparr>,
                                \<lparr>Completion.id = 2, habit_id = 1, completed_date = 99\<rparr>]\<rparr>"]
  by (simp add: completion_dates_def)

text \<open>
  C2. With completions on the day before today, today and the day after, the habit has
  one completion per day and one dated today, and the two days up to today are an
  unbroken run; the row dated after today is read first, the loop breaks on it and the
  streak is 0. Without that row the streak is 2.
\<close>

theorem calculate_streak_future_completion:
  "(100::int) \<in> completion_dates 1
       \<lparr>habits = [\<lparr>Habit.id = 1, name = ''Run'', emoji = ''*'', created_at = 90\<rparr>],
        completions = [\<lparr>Completion.id = 1, habit_id = 1, completed_date = 99\<rparr>,
                       \<lparr>Completion.id = 2, habit_id = 1, completed_date = 100\<rparr>,
                       \<lparr>Completion.id = 3, habit_id = 1, completed_date = 101\<rparr>]\<rparr>
   \<and> unique_dates
       \<lparr>habits = [\<lparr>Habit.id = 1, name = ''Run'', emoji = ''*'', created_at = 90\<rparr>],
        completions = [\<lparr>Completion.id = 1, habit_id = 1, completed_date = 99\<rparr>,
                       \<lparr>Completion.id = 2, habit_id = 1, completed_date = 100\<rparr>,
                       \<lparr>Completion.id = 3, habit_id = 1, completed_date = 101\<rparr>]\<rparr>
   \<and> calculate_streak 1
       \<lparr>habits = [\<lparr>Habit.id = 1, name = ''Run'', emoji = ''*'', created_at = 90\<rparr>],
        completions = [\<lparr>Completion.id = 1, habit_id = 1, completed_date = 99\<rparr>,
                       \<lparr>Completion.id = 2, habit_id = 1, completed_date = 100\<rparr>,
                       \<lparr>Completion.id = 3, habit_id = 1, completed_date = 101\<rparr>]\<rparr> 100 = 0
   \<and> calculate_streak 1
       \<lparr>habits = [\<lparr>Habit.id = 1, name = ''Run'', emoji = ''*'', created_at = 90\<rparr>],
        completions = [\<lparr>Completion.id = 1, habit_id = 1, completed_date = 99\<rparr>,
                       \<lparr>Completion.id = 2, habit_id = 1, completed_date = 100\<rparr>]\<rparr> 100 = 2"
  by (simp add: completion_dates_def unique_dates_def calculate_streak_def query_completions_def)

text \<open>
  C3. A habit with no completion dated today and none dated the day before has streak 0,
  whatever older completions it has.
\<close>

theorem calculate_streak_two_days_missed:
  "today \<notin> completion_dates hid db \<Longrightarrow> today - 1 \<notin> completion_dates hid db \<Longrightarrow>
     calculate_streak hid db today = 0"
  by (rule calculate_streak_no_today)

theorem calculate_streak_two_days_missed_witness:
  "(100::int) \<notin> completion_dates 1
       \<lparr>habits = [\<lparr>Habit.id = 1, name = ''Run'', emoji = ''*'', created_at = 90\<rparr>],
        completions = [\<lparr>Completion.id = 1, habit_id = 1, completed_date = 97\<rparr>,
                       \<lparr>Completion.id = 2, habit_id = 1, completed_date = 98\<rparr>]\<rparr>
   \<and> (100::int) - 1 \<notin> completion_dates 1
       \<lparr>habits = [\<lparr>Habit.id = 1, name = ''Run'', emoji = ''*'', created_at = 90\<rparr>],
        completions = [\<lparr>Completion.id = 1, habit_id = 1, completed_date = 97\<rparr>,
                       \<lparr>Completion.id = 2, habit_id = 1, completed_date = 98\<rparr>]\<rparr>
   \<and> calculate_streak 1
       \<lparr>habits = [\<lparr>Habit.id = 1, name = ''Run'', emoji = ''*'', created_at = 90\<rparr>],
        completions = [\<lparr>Completion.id = 1, habit_id = 1, completed_date = 97\<rparr>,
                       \<lparr>Completion.id = 2, habit_id = 1, completed_date = 98\<rparr>]\<rparr> 100 = 0"
  using calculate_streak_two_days_missed
    [of 100 1 "\<lparr>habits = [\<lparr>Habit.id = 1, name = ''Run'', emoji = ''*'', created_at = 90\<rparr>],
                 completions = [\<lparr>Completion.id = 1, habit_id = 1, completed_date = 97\<rparr>,
                                \<lparr>Completion.id = 2, habit_id = 1, completed_date = 98\<rparr>]\<rparr>"]
  by (simp add: completion_dates_def)

text \<open>
  C4. \<^verbatim>\<open>create_completion\<close> answers 404 and leaves the database as it is when no habit
  has the given id; it answers 400 and leaves the database as it is when the habit exists
  and has a completion of the given date (the habit exists whenever such a completion
  does, by the foreign key); otherwise it appends one completion, of the given habit and
  date, under an id no completion has, and returns it.
\<close>

theorem create_completion_cases:
  "(CompletionCreate.habit_id completion \<notin> set (map Habit.id (habits db)) \<longrightarrow>
      create_completion completion db = (db, Inl (HTTPException 404 ''Habit not found'')))
   \<and> (CompletionCreate.habit_id completion \<in> set (map Habit.id (habits db))
      \<and> (CompletionCreate.habit_id completion, CompletionCreate.completed_date completion)
          \<in> set (map (\<lambda>c. (Completion.habit_id c, Completion.completed_date c)) (completions db)) \<longrightarrow>
      create_completion completion db = (db, Inl (HTTPException 400 ''Completion already exists'')))
   \<and> (foreign_keys db
      \<and> (CompletionCreate.habit_id completion, CompletionCreate.completed_date completion)
          \<in> set (map (\<lambda>c. (Completion.habit_id c, Completion.completed_date c)) (completions db)) \<longrightarrow>
      create_completion completion db = (db, Inl (HTTPException 400 ''Completion already exists'')))
   \<and> (CompletionCreate.habit_id completion \<in> set (map Habit.id (habits db))
      \<and> (CompletionCreate.habit_id completion, CompletionCreate.completed_date completion)
          \<notin> set (map (\<lambda>c. (Completion.habit_id c, Completion.completed_date c)) (completions db)) \<longrightarrow>
      (\<exists>new. create_completion completion db = (db\<lparr>completions := completions db @ [new]\<rparr>, Inr new)
         \<and> Completion.habit_id new = CompletionCreate.habit_id completion
         \<and> Completion.completed_date new = CompletionCreate.completed_date completion
         \<and> Completion.id new \<notin> set (map Completion.id (completions db))))"
proof -
  let ?h = "CompletionCreate.habit_id completion"
  let ?d = "CompletionCreate.completed_date completion"
  let ?P = "\<lambda>c. Completion.habit_id c = ?h \<and> Completion.completed_date c = ?d"
  let ?pairs = "set (map (\<lambda>c. (Completion.habit_id c, Completion.completed_date c)) (completions db))"
  have dup: "find ?P (completions db) = None \<longleftrightarrow> (?h, ?d) \<notin> ?pairs"
    by (force simp: find_None_iff image_iff)
  have missing: "create_completion completion db = (db, Inl (HTTPException 404 ''Habit not found''))"
    if "?h \<notin> set (map Habit.id (habits db))"
    using that find_None_ids [of Habit.id ?h "habits db"]
    by (simp add: create_completion_def)
  have conflict: "create_completion completion db
                    = (db, Inl (HTTPException 400 ''Completion already exists''))"
    if "?h \<in> set (map Habit.id (habits db))" "(?h, ?d) \<in> ?pairs"
  proof -
    from that(1) obtain h where "find (\<lambda>h. Habit.id h = ?h) (habits db) = Some h"
      using find_Some_ids [of ?h Habit.id "habits db"] by blast
    moreover from that(2) dup obtain c where "find ?P (completions db) = Some c" by auto
    ultimately show ?thesis by (simp add: create_completion_def)
  qed
  have conflict_fk: "create_completion completion db
                    = (db, Inl (HTTPException 400 ''Completion already exists''))"
    if "foreign_keys db" "(?h, ?d) \<in> ?pairs"
  proof -
    from that have "?h \<in> set (map Habit.id (habits db))"
      by (auto simp: foreign_keys_def)
    then show ?thesis using that(2) by (rule conflict)
  qed
  have inserted: "\<exists>new. create_completion completion db
                      = (db\<lparr>completions := completions db @ [new]\<rparr>, Inr new)
         \<and> Completion.habit_id new = ?h \<and> Completion.completed_date new = ?d
         \<and> Completion.id new \<notin> set (map Completion.id (completions db))"
    if "?h \<in> set (map Habit.id (habits db))" "(?h, ?d) \<notin> ?pairs"
  proof -
    from that(1) obtain h where "find (\<lambda>h. Habit.id h = ?h) (habits db) = Some h"
      using find_Some_ids [of ?h Habit.id "habits db"] by blast
    moreover from that(2) dup have "find ?P (completions db) = None" by simp
    ultimately have "create_completion completion db
       = (db\<lparr>completions := completions db @
               [\<lparr>Completion.id = next_id (map Completion.id (completions db)),
                 habit_id = ?h, completed_date = ?d\<rparr>]\<rparr>,
          Inr \<lparr>Completion.id = next_id (map Completion.id (completions db)),
                 habit_id = ?h, completed_date = ?d\<rparr>)"
      by (simp add: create_completion_def Let_def)
    then show ?thesis
      using next_id_fresh [of "map Completion.id (completions db)"] by simp
  qed
  from missing conflict conflict_fk inserted show ?thesis by blast
qed

theorem create_completion_cases_witness:
  "7 \<notin> set (map Habit.id (habits
       \<lparr>habits = [\<lparr>Habit.id = 1, name = ''Run'', emoji = ''*'', created_at = 90\<rparr>],
        completions = [\<lparr>Completion.id = 4, habit_id = 1, completed_date = 100\<rparr>]\<rparr>))
   \<and> create_completion \<lparr>CompletionCreate.habit_id = 7, completed_date = 100\<rparr>
       \<lparr>habits = [\<lparr>Habit.id = 1, name = ''Run'', emoji = ''*'', created_at = 90\<rparr>],
        completions = [\<lparr>Completion.id = 4, habit_id = 1, completed_date = 100\<rparr>]\<rparr>
     = (\<lparr>habits = [\<lparr>Habit.id = 1, name = ''Run'', emoji = ''*'', created_at = 90\<rparr>],
         completions = [\<lparr>Completion.id = 4, habit_id = 1, completed_date = 100\<rparr>]\<rparr>,
        Inl (HTTPException 404 ''Habit not found''))
   \<and> foreign_keys
       \<lparr>habits = [\<lparr>Habit.id = 1, name = ''Run'', emoji = ''*'', created_at = 90\<rparr>],
        completions = [\<lparr>Completion.id = 4, habit_id = 1, completed_date = 100\<rparr>]\<rparr>
   \<and> create_completion \<lparr>CompletionCreate.habit_id = 1, completed_date = 100\<rparr>
       \<lparr>habits = [\<lparr>Habit.id = 1, name = ''Run'', emoji = ''*'', created_at = 90\<rparr>],
        completions = [\<lparr>Completion.id = 4, habit_id = 1, completed_date = 100\<rparr>]\<rparr>
     = (\<lparr>habits = [\<lparr>Habit.id = 1, name = ''Run'', emoji = ''*'', created_at = 90\<rparr>],
         completions = [\<lparr>Completion.id = 4, habit_id = 1, completed_date = 100\<rparr>]\<rparr>,
        Inl (HTTPException 400 ''Completion already exists''))
   \<and> (\<exists>new. create_completion \<lparr>CompletionCreate.habit_id = 1, completed_date = 101\<rparr>
       \<lparr>habits = [\<lparr>Habit.id = 1, name = ''Run'', emoji = ''*'', created_at = 90\<rparr>],
        completions = [\<lparr>Completion.id = 4, habit_id = 1, completed_date = 100\<rparr>]\<rparr>
     = (\<lparr>habits = [\<lparr>Habit.id = 1, name = ''Run'', emoji = ''*'', created_at = 90\<rparr>],
         completions = [\<lparr>Completion.id = 4, habit_id = 1, completed_date = 100\<rparr>, new]\<rparr>,
        Inr new)
      \<and> Completion.habit_id new = 1 \<and> Completion.completed_date new = 101
      \<and> Completion.id new \<noteq> 4)"
  using create_completion_cases
     [of "\<lparr>CompletionCreate.habit_id = 7, completed_date = 100\<rparr>"
         "\<lparr>habits = [\<lparr>Habit.id = 1, name = ''Run'', emoji = ''*'', created_at = 90\<rparr>],
           completions = [\<lparr>Completion.id = 4, habit_id = 1, completed_date = 100\<rparr>]\<rparr>"]
    create_completion_cases
     [of "\<lparr>CompletionCreate.habit_id = 1, completed_date = 100\<rparr>"
         "\<lparr>habits = [\<lparr>Habit.id = 1, name = ''Run'', emoji = ''*'', created_at = 90\<rparr>],
           completions = [\<lparr>Completion.id = 4, habit_id = 1, completed_date = 100\<rparr>]\<rparr>"]
    create_completion_cases
     [of "\<lparr>CompletionCreate.habit_id = 1, completed_date = 101\<rparr>"
         "\<lparr>habits = [\<lparr>Habit.id = 1, name = ''Run'', emoji = ''*'', created_at = 90\<rparr>],
           completions = [\<lparr>Completion.id = 4, habit_id = 1, completed_date = 100\<rparr>]\<rparr>"]
  by (simp add: foreign_keys_def)

text \<open>
  C5, as the claim states it, fails: the body with the empty name and no emoji, posted
  to the empty database, is accepted, and the habit with the empty name is stored.
\<close>

theorem create_habit_empty_name_counterexample:
  "post_habits (JObject [(''name'', JString '''')])
               \<lparr>habits = [], completions = []\<rparr> 100
   = (\<lparr>habits = [\<lparr>Habit.id = 1, name = '''', emoji = default_emoji, created_at = 100\<rparr>],
       completions = []\<rparr>,
      Inr \<lparr>HabitResponse.id = 1, name = '''', emoji = default_emoji,
           current_streak = 0, created_at = 100\<rparr>)"
  by (simp add: post_habits_def validate_HabitCreate_def json_get_def create_habit_def
        next_id_def)

text \<open>
  C5, amended. A body whose name is a string, the empty string included, and whose
  emoji is unspecified or a string is accepted: one habit is appended, with that name,
  the given emoji or the default one when none is given, today as \<^verbatim>\<open>created_at\<close> and
  an id no habit has; the response shows it with streak 0.
\<close>

theorem create_habit_any_name:
  "json_get ''name'' members = Some (JString n) \<Longrightarrow>
   json_get ''emoji'' members = map_option JString e \<Longrightarrow>
   \<exists>new. post_habits (JObject members) db today
          = (db\<lparr>habits := habits db @ [new]\<rparr>,
             Inr \<lparr>HabitResponse.id = Habit.id new, name = n, emoji = Habit.emoji new,
                  current_streak = 0, created_at = today\<rparr>)
        \<and> Habit.name new = n
        \<and> Habit.emoji new = (case e of None \<Rightarrow> default_emoji | Some x \<Rightarrow> x)
        \<and> Habit.created_at new = today
        \<and> Habit.id new \<notin> set (map Habit.id (habits db))"
proof -
  assume name: "json_get ''name'' members = Some (JString n)"
    and emoji: "json_get ''emoji'' members = map_option JString e"
  let ?em = "case e of None \<Rightarrow> default_emoji | Some x \<Rightarrow> x"
  let ?new = "\<lparr>Habit.id = next_id (map Habit.id (habits db)), name = n,
               emoji = ?em, created_at = today\<rparr>"
  have "validate_str (json_get ''emoji'' members) (Some default_emoji) = Inr ?em"
    by (cases e) (simp_all add: emoji)
  then have "validate_HabitCreate (JObject members)
               = Inr \<lparr>HabitCreate.name = n, emoji = ?em\<rparr>"
    by (simp add: validate_HabitCreate_def name)
  then have "post_habits (JObject members) db today
          = (db\<lparr>habits := habits db @ [?new]\<rparr>,
             Inr \<lparr>HabitResponse.id = Habit.id ?new, name = n, emoji = Habit.emoji ?new,
                  current_streak = 0, created_at = today\<rparr>)"
    by (simp add: post_habits_def create_habit_def Let_def)
  moreover have "Habit.id ?new \<notin> set (map Habit.id (habits db))"
    using next_id_fresh [of "map Habit.id (habits db)"] by simp
  ultimately show ?thesis
    by (intro exI [of _ ?new]) simp
qed

theorem create_habit_any_name_witness:
  "json_get ''name'' [(''name'', JString ''''), (''emoji'', JString ''x'')] = Some (JString '''')
   \<and> json_get ''emoji'' [(''name'', JString ''''), (''emoji'', JString ''x'')]
       = map_option JString (Some ''x'')
   \<and> (\<exists>new. post_habits (JObject [(''name'', JString ''''), (''emoji'', JString ''x'')])
                       \<lparr>habits = [], completions = []\<rparr> 100
          = (\<lparr>habits = [new], completions = []\<rparr>,
             Inr \<lparr>HabitResponse.id = Habit.id new, name = '''', emoji = Habit.emoji new,
                  current_streak = 0, created_at = 100\<rparr>)
        \<and> Habit.name new = ''''
        \<and> Habit.emoji new = ''x''
        \<and> Habit.created_at new = 100)"
proof -
  have name: "json_get ''name'' [(''name'', JString ''''), (''emoji'', JString ''x'')]
                = Some (JString '''')"
    by (simp add: json_get_def)
  have emoji: "json_get ''emoji'' [(''name'', JString ''''), (''emoji'', JString ''x'')]
                = map_option JString (Some ''x'')"
    by (simp add: json_get_def)
  from create_habit_any_name [OF name emoji, of "\<lparr>habits = [], completions = []\<rparr>" 100]
  show ?thesis using name emoji by simp
qed

text \<open>
  C6. \<^verbatim>\<open>delete_habit\<close> answers 404 and leaves the database as it is when no habit has
  the id; otherwise the habit is removed and afterwards no completion has its id as
  \<^verbatim>\<open>habit_id\<close>. No completion is added, and with unique primary keys the completions
  of the other habits all stay.
\<close>

theorem delete_habit_cascade:
  "(hid \<notin> set (map Habit.id (habits db)) \<longrightarrow>
      delete_habit hid db = (db, Inl (HTTPException 404 ''Habit not found'')))
   \<and> (hid \<in> set (map Habit.id (habits db)) \<longrightarrow>
      (\<exists>db'. delete_habit hid db = (db', Inr ''Habit deleted successfully'')
         \<and> habits db' = filter (\<lambda>h. Habit.id h \<noteq> hid) (habits db)
         \<and> hid \<notin> set (map Habit.id (habits db'))
         \<and> hid \<notin> set (map Completion.habit_id (completions db'))
         \<and> set (completions db') \<subseteq> set (completions db)
         \<and> (primary_keys db \<longrightarrow>
              completions db' = filter (\<lambda>c. Completion.habit_id c \<noteq> hid) (completions db))))"
proof -
  have missing: "delete_habit hid db = (db, Inl (HTTPException 404 ''Habit not found''))"
    if "hid \<notin> set (map Habit.id (habits db))"
    using that find_None_ids [of Habit.id hid "habits db"] by (simp add: delete_habit_def)
  have present: "\<exists>db'. delete_habit hid db = (db', Inr ''Habit deleted successfully'')
         \<and> habits db' = filter (\<lambda>h. Habit.id h \<noteq> hid) (habits db)
         \<and> hid \<notin> set (map Habit.id (habits db'))
         \<and> hid \<notin> set (map Completion.habit_id (completions db'))
         \<and> set (completions db') \<subseteq> set (completions db)
         \<and> (primary_keys db \<longrightarrow>
              completions db' = filter (\<lambda>c. Completion.habit_id c \<noteq> hid) (completions db))"
    if "hid \<in> set (map Habit.id (habits db))"
  proof -
    from that obtain h where h: "find (\<lambda>h. Habit.id h = hid) (habits db) = Some h"
      and hid: "Habit.id h = hid"
      using find_Some_ids [of hid Habit.id "habits db"] by blast
    let ?children = "filter (\<lambda>c. Completion.habit_id c = hid) (completions db)"
    let ?cs' = "filter (\<lambda>c. Completion.id c \<notin> set (map Completion.id ?children)) (completions db)"
    let ?db' = "\<lparr>habits = filter (\<lambda>h. Habit.id h \<noteq> hid) (habits db), completions = ?cs'\<rparr>"
    have run: "delete_habit hid db = (?db', Inr ''Habit deleted successfully'')"
      using h hid by (simp add: delete_habit_def Let_def)
    have gone: "hid \<notin> set (map Completion.habit_id ?cs')"
      by auto
    have frame: "?cs' = filter (\<lambda>c. Completion.habit_id c \<noteq> hid) (completions db)"
      if pk: "primary_keys db"
    proof (rule filter_cong [OF refl])
      fix c assume c: "c \<in> set (completions db)"
      from pk have inj: "inj_on Completion.id (set (completions db))"
        by (simp add: primary_keys_def distinct_map)
      show "(Completion.id c \<notin> set (map Completion.id ?children))
              = (Completion.habit_id c \<noteq> hid)"
      proof
        assume "Completion.id c \<notin> set (map Completion.id ?children)"
        with c show "Completion.habit_id c \<noteq> hid" by auto
      next
        assume ne: "Completion.habit_id c \<noteq> hid"
        show "Completion.id c \<notin> set (map Completion.id ?children)"
        proof
          assume "Completion.id c \<in> set (map Completion.id ?children)"
          then obtain c' where c': "c' \<in> set (completions db)" "Completion.habit_id c' = hid"
            "Completion.id c' = Completion.id c" by auto
          with inj c have "c' = c" by (auto dest: inj_onD)
          with c'(2) ne show False by simp
        qed
      qed
    qed
    from run gone frame show ?thesis by (intro exI [of _ ?db']) auto
  qed
  from missing present show ?thesis by blast
qed

theorem delete_habit_cascade_witness:
  "7 \<notin> set (map Habit.id (habits
       \<lparr>habits = [\<lparr>Habit.id = 1, name = ''Run'', emoji = ''*'', created_at = 90\<rparr>,
                   \<lparr>Habit.id = 2, name = ''Read'', emoji = ''*'', created_at = 95\<rparr>],
        completions = [\<lparr>Completion.id = 1, habit_id = 1, completed_date = 99\<rparr>,
                       \<lparr>Completion.id = 2, habit_id = 2, completed_date = 99\<rparr>,
                       \<lparr>Completion.id = 3, habit_id = 1, completed_date = 100\<rparr>]\<rparr>))
   \<and> delete_habit 7
       \<lparr>habits = [\<lparr>Habit.id = 1, name = ''Run'', emoji = ''*'', created_at = 90\<rparr>,
                   \<lparr>Habit.id = 2, name = ''Read'', emoji = ''*'', created_at = 95\<rparr>],
        completions = [\<lparr>Completion.id = 1, habit_id = 1, completed_date = 99\<rparr>,
                       \<lparr>Completion.id = 2, habit_id = 2, completed_date = 99\<rparr>,
                       \<lparr>Completion.id = 3, habit_id = 1, completed_date = 100\<rparr>]\<rparr>
     = (\<lparr>habits = [\<lparr>Habit.id = 1, name = ''Run'', emoji = ''*'', created_at = 90\<rparr>,
                   \<lparr>Habit.id = 2, name = ''Read'', emoji = ''*'', created_at = 95\<rparr>],
        completions = [\<lparr>Completion.id = 1, habit_id = 1, completed_date = 99\<rparr>,
                       \<lparr>Completion.id = 2, habit_id = 2, completed_date = 99\<rparr>,
                       \<lparr>Completion.id = 3, habit_id = 1, completed_date = 100\<rparr>]\<rparr>,
        Inl (HTTPException 404 ''Habit not found''))
   \<and> primary_keys
       \<lparr>habits = [\<lparr>Habit.id = 1, name = ''Run'', emoji = ''*'', created_at = 90\<rparr>,
                   \<lparr>Habit.id = 2, name = ''Read'', emoji = ''*'', created_at = 95\<rparr>],
        completions = [\<lparr>Completion.id = 1, habit_id = 1, completed_date = 99\<rparr>,
                       \<lparr>Completion.id = 2, habit_id = 2, completed_date = 99\<rparr>,
                       \<lparr>Completion.id = 3, habit_id = 1, completed_date = 100\<rparr>]\<rparr>
   \<and> delete_habit 1
       \<lparr>habits = [\<lparr>Habit.id = 1, name = ''Run'', emoji = ''*'', created_at = 90\<rparr>,
                   \<lparr>Habit.id = 2, name = ''Read'', emoji = ''*'', created_at = 95\<rparr>],
        completions = [\<lparr>Completion.id = 1, habit_id = 1, completed_date = 99\<rparr>,
                       \<lparr>Completion.id = 2, habit_id = 2, completed_date = 99\<rparr>,
                       \<lparr>Completion.id = 3, habit_id = 1, completed_date = 100\<rparr>]\<rparr>
     = (\<lparr>habits = [\<lparr>Habit.id = 2, name = ''Read'', emoji = ''*'', created_at = 95\<rparr>],
         completions = [\<lparr>Completion.id = 2, habit_id = 2, completed_date = 99\<rparr>]\<rparr>,
        Inr ''Habit deleted successfully'')"
  using delete_habit_cascade
     [of 7 "\<lparr>habits = [\<lparr>Habit.id = 1, name = ''Run'', emoji = ''*'', created_at = 90\<rparr>,
                   \<lparr>Habit.id = 2, name = ''Read'', emoji = ''*'', created_at = 95\<rparr>],
        completions = [\<lparr>Completion.id = 1, habit_id = 1, completed_date = 99\<rparr>,
                       \<lparr>Completion.id = 2, habit_id = 2, completed_date = 99\<rparr>,
                       \<lparr>Completion.id = 3, habit_id = 1, completed_date = 100\<rparr>]\<rparr>"]
    delete_habit_cascade
     [of 1 "\<lparr>habits = [\<lparr>Habit.id = 1, name = ''Run'', emoji = ''*'', created_at = 90\<rparr>,
                   \<lparr>Habit.id = 2, name = ''Read'', emoji = ''*'', created_at = 95\<rparr>],
        completions = [\<lparr>Completion.id = 1, habit_id = 1, completed_date = 99\<rparr>,
                       \<lparr>Completion.id = 2, habit_id = 2, completed_date = 99\<rparr>,
                       \<lparr>Completion.id = 3, habit_id = 1, completed_date = 100\<rparr>]\<rparr>"]
  by (auto simp: primary_keys_def)

text \<open>
  C7. A habit with no completion has streak 0: \<^verbatim>\<open>calculate_streak\<close> returns 0 when the
  database holds no completion row of the habit.
\<close>

theorem calculate_streak_empty:
  "completion_dates hid db = {} \<Longrightarrow> calculate_streak hid db today = 0"
proof -
  assume "completion_dates hid db = {}"
  then have "query_completions hid db = []"
    using dates_query_completions [of hid db] by simp
  then show ?thesis
    by (simp add: calculate_streak_def)
qed

theorem calculate_streak_empty_witness:
  "completion_dates 1 \<lparr>habits = [\<lparr>Habit.id = 1, name = ''Run'', emoji = ''*'', created_at = 90\<rparr>,
                                  \<lparr>Habit.id = 2, name = ''Read'', emoji = ''*'', created_at = 95\<rparr>],
                        completions = [\<lparr>Completion.id = 1, habit_id = 2, completed_date = 100\<rparr>]\<rparr> = {}
   \<and> calculate_streak 1 \<lparr>habits = [\<lparr>Habit.id = 1, name = ''Run'', emoji = ''*'', created_at = 90\<rparr>,
                                    \<lparr>Habit.id = 2, name = ''Read'', emoji = ''*'', created_at = 95\<rparr>],
                          completions = [\<lparr>Completion.id = 1, habit_id = 2, completed_date = 100\<rparr>]\<rparr>
                        100 = 0"
  using calculate_streak_empty
    [of 1 "\<lparr>habits = [\<lparr>Habit.id = 1, name = ''Run'', emoji = ''*'', created_at = 90\<rparr>,
                       \<lparr>Habit.id = 2, name = ''Read'', emoji = ''*'', created_at = 95\<rparr>],
             completions = [\<lparr>Completion.id = 1, habit_id = 2, completed_date = 100\<rparr>]\<rparr>" 100]
  by (simp add: completion_dates_def)

text \<open>
  C8. \<^verbatim>\<open>update_habit\<close> answers 404 and leaves the database as it is when no habit has
  the id. Otherwise the completions are unchanged, the habits table keeps its length, and
  row by row: id and \<^verbatim>\<open>created_at\<close> are unchanged, a row of the given id gets the new
  name and emoji, any other row is unchanged. The response has the id, the new name and
  emoji, the streak of the habit and the \<^verbatim>\<open>created_at\<close> of the stored habit, and agrees
  with a row of the updated table.
\<close>

theorem update_habit_frame:
  "(hid \<notin> set (map Habit.id (habits db)) \<longrightarrow>
      update_habit hid habit db today = (db, Inl (HTTPException 404 ''Habit not found'')))
   \<and> (hid \<in> set (map Habit.id (habits db)) \<longrightarrow>
      (\<exists>db' r. update_habit hid habit db today = (db', Inr r)
         \<and> completions db' = completions db
         \<and> length (habits db') = length (habits db)
         \<and> (\<forall>i < length (habits db).
               Habit.id (habits db' ! i) = Habit.id (habits db ! i)
             \<and> Habit.created_at (habits db' ! i) = Habit.created_at (habits db ! i)
             \<and> (Habit.id (habits db ! i) = hid \<longrightarrow>
                  Habit.name (habits db' ! i) = HabitUpdate.name habit
                \<and> Habit.emoji (habits db' ! i) = HabitUpdate.emoji habit)
             \<and> (Habit.id (habits db ! i) \<noteq> hid \<longrightarrow> habits db' ! i = habits db ! i))
         \<and> HabitResponse.id r = hid
         \<and> HabitResponse.name r = HabitUpdate.name habit
         \<and> HabitResponse.emoji r = HabitUpdate.emoji habit
         \<and> HabitResponse.current_streak r = calculate_streak hid db today
         \<and> (\<exists>h \<in> set (habits db). Habit.id h = hid
                \<and> HabitResponse.created_at r = Habit.created_at h)
         \<and> (\<exists>h' \<in> set (habits db'). HabitResponse.id r = Habit.id h'
                \<and> HabitResponse.name r = Habit.name h'
                \<and> HabitResponse.emoji r = Habit.emoji h'
                \<and> HabitResponse.created_at r = Habit.created_at h')))"
proof -
  have missing: "update_habit hid habit db today = (db, Inl (HTTPException 404 ''Habit not found''))"
    if "hid \<notin> set (map Habit.id (habits db))"
    using that find_None_ids [of Habit.id hid "habits db"] by (simp add: update_habit_def)
  have present: "\<exists>db' r. update_habit hid habit db today = (db', Inr r)
         \<and> completions db' = completions db
         \<and> length (habits db') = length (habits db)
         \<and> (\<forall>i < length (habits db).
               Habit.id (habits db' ! i) = Habit.id (habits db ! i)
             \<and> Habit.created_at (habits db' ! i) = Habit.created_at (habits db ! i)
             \<and> (Habit.id (habits db ! i) = hid \<longrightarrow>
                  Habit.name (habits db' ! i) = HabitUpdate.name habit
                \<and> Habit.emoji (habits db' ! i) = HabitUpdate.emoji habit)
             \<and> (Habit.id (habits db ! i) \<noteq> hid \<longrightarrow> habits db' ! i = habits db ! i))
         \<and> HabitResponse.id r = hid
         \<and> HabitResponse.name r = HabitUpdate.name habit
         \<and> HabitResponse.emoji r = HabitUpdate.emoji habit
         \<and> HabitResponse.current_streak r = calculate_streak hid db today
         \<and> (\<exists>h \<in> set (habits db). Habit.id h = hid
                \<and> HabitResponse.created_at r = Habit.created_at h)
         \<and> (\<exists>h' \<in> set (habits db'). HabitResponse.id r = Habit.id h'
                \<and> HabitResponse.name r = Habit.name h'
                \<and> HabitResponse.emoji r = Habit.emoji h'
                \<and> HabitResponse.created_at r = Habit.created_at h')"
    if "hid \<in> set (map Habit.id (habits db))"
  proof -
    from that obtain h where h: "find (\<lambda>h. Habit.id h = hid) (habits db) = Some h"
      and mem: "h \<in> set (habits db)" and hid: "Habit.id h = hid"
      using find_Some_ids [of hid Habit.id "habits db"] by blast
    let ?upd = "\<lambda>h. if Habit.id h = hid
                     then h\<lparr>Habit.name := HabitUpdate.name habit,
                            Habit.emoji := HabitUpdate.emoji habit\<rparr>
                     else h"
    let ?db' = "db\<lparr>habits := map ?upd (habits db)\<rparr>"
    let ?r = "\<lparr>HabitResponse.id = hid, name = HabitUpdate.name habit,
               emoji = HabitUpdate.emoji habit,
               current_streak = calculate_streak hid ?db' today,
               created_at = Habit.created_at h\<rparr>"
    have run: "update_habit hid habit db today = (?db', Inr ?r)"
      using h hid by (simp add: update_habit_def Let_def)
    have streak: "calculate_streak hid ?db' today = calculate_streak hid db today"
      by (simp add: calculate_streak_def query_completions_def)
    have rows: "\<forall>i < length (habits db).
               Habit.id (habits ?db' ! i) = Habit.id (habits db ! i)
             \<and> Habit.created_at (habits ?db' ! i) = Habit.created_at (habits db ! i)
             \<and> (Habit.id (habits db ! i) = hid \<longrightarrow>
                  Habit.name (habits ?db' ! i) = HabitUpdate.name habit
                \<and> Habit.emoji (habits ?db' ! i) = HabitUpdate.emoji habit)
             \<and> (Habit.id (habits db ! i) \<noteq> hid \<longrightarrow> habits ?db' ! i = habits db ! i)"
      by simp
    have old: "\<exists>h \<in> set (habits db). Habit.id h = hid
                \<and> HabitResponse.created_at ?r = Habit.created_at h"
      using mem hid by auto
    have "?upd h \<in> set (habits ?db')" using mem by simp
    then have new: "\<exists>h' \<in> set (habits ?db'). HabitResponse.id ?r = Habit.id h'
                \<and> HabitResponse.name ?r = Habit.name h'
                \<and> HabitResponse.emoji ?r = Habit.emoji h'
                \<and> HabitResponse.created_at ?r = Habit.created_at h'"
      using hid by (intro bexI [of _ "?upd h"]) simp_all
    show ?thesis
      apply (intro exI [of _ ?db'] exI [of _ ?r] conjI)
                apply (rule run)
               apply simp
              apply simp
             apply (rule rows)
            apply simp
           apply simp
          apply simp
         apply (simp add: streak)
        apply (rule old)
       apply (rule new)
      done
  qed
  from missing present show ?thesis by blast
qed

theorem update_habit_frame_witness:
  "7 \<notin> set (map Habit.id (habits
       \<lparr>habits = [\<lparr>Habit.id = 1, name = ''Run'', emoji = ''*'', created_at = 90\<rparr>,
                   \<lparr>Habit.id = 2, name = ''Read'', emoji = ''*'', created_at = 95\<rparr>],
        completions = [\<lparr>Completion.id = 1, habit_id = 1, completed_date = 100\<rparr>]\<rparr>))
   \<and> update_habit 7 \<lparr>HabitUpdate.name = ''Jog'', emoji = ''+''\<rparr>
       \<lparr>habits = [\<lparr>Habit.id = 1, name = ''Run'', emoji = ''*'', created_at = 90\<rparr>,
                   \<lparr>Habit.id = 2, name = ''Read'', emoji = ''*'', created_at = 95\<rparr>],
        completions = [\<lparr>Completion.id = 1, habit_id = 1, completed_date = 100\<rparr>]\<rparr> 100
     = (\<lparr>habits = [\<lparr>Habit.id = 1, name = ''Run'', emoji = ''*'', created_at = 90\<rparr>,
                   \<lparr>Habit.id = 2, name = ''Read'', emoji = ''*'', created_at = 95\<rparr>],
        completions = [\<lparr>Completion.id = 1, habit_id = 1, completed_date = 100\<rparr>]\<rparr>,
        Inl (HTTPException 404 ''Habit not found''))
   \<and> 1 \<in> set (map Habit.id (habits
       \<lparr>habits = [\<lparr>Habit.id = 1, name = ''Run'', emoji = ''*'', created_at = 90\<rparr>,
                   \<lparr>Habit.id = 2, name = ''Read'', emoji = ''*'', created_at = 95\<rparr>],
        completions = [\<lparr>Completion.id = 1, habit_id = 1, completed_date = 100\<rparr>]\<rparr>))
   \<and> (\<exists>db' r. update_habit 1 \<lparr>HabitUpdate.name = ''Jog'', emoji = ''+''\<rparr>
       \<lparr>habits = [\<lparr>Habit.id = 1, name = ''Run'', emoji = ''*'', created_at = 90\<rparr>,
                   \<lparr>Habit.id = 2, name = ''Read'', emoji = ''*'', created_at = 95\<rparr>],
        completions = [\<lparr>Completion.id = 1, habit_id = 1, completed_date = 100\<rparr>]\<rparr> 100
        = (db', Inr r)
      \<and> completions db' = [\<lparr>Completion.id = 1, habit_id = 1, completed_date = 100\<rparr>]
      \<and> Habit.id (habits db' ! 0) = 1
      \<and> Habit.name (habits db' ! 0) = ''Jog''
      \<and> Habit.emoji (habits db' ! 0) = ''+''
      \<and> Habit.created_at (habits db' ! 0) = 90
      \<and> habits db' ! 1 = \<lparr>Habit.id = 2, name = ''Read'', emoji = ''*'', created_at = 95\<rparr>
      \<and> HabitResponse.id r = 1
      \<and> HabitResponse.name r = ''Jog''
      \<and> HabitResponse.emoji r = ''+'')"
proof -
  let ?db = "\<lparr>habits = [\<lparr>Habit.id = 1, name = ''Run'', emoji = ''*'', created_at = 90\<rparr>,
                   \<lparr>Habit.id = 2, name = ''Read'', emoji = ''*'', created_at = 95\<rparr>],
        completions = [\<lparr>Completion.id = 1, habit_id = 1, completed_date = 100\<rparr>]\<rparr>"
  let ?upd = "\<lparr>HabitUpdate.name = ''Jog'', emoji = ''+''\<rparr>"
  have absent: "7 \<notin> set (map Habit.id (habits ?db))" by simp
  have present: "1 \<in> set (map Habit.id (habits ?db))" by simp
  from update_habit_frame [of 7 ?db ?upd 100] absent
  have a: "update_habit 7 ?upd ?db 100 = (?db, Inl (HTTPException 404 ''Habit not found''))"
    by blast
  from update_habit_frame [of 1 ?db ?upd 100] present
  obtain db' r where run: "update_habit 1 ?upd ?db 100 = (db', Inr r)"
    and cs: "completions db' = completions ?db"
    and rows: "\<forall>i < length (habits ?db).
               Habit.id (habits db' ! i) = Habit.id (habits ?db ! i)
             \<and> Habit.created_at (habits db' ! i) = Habit.created_at (habits ?db ! i)
             \<and> (Habit.id (habits ?db ! i) = 1 \<longrightarrow>
                  Habit.name (habits db' ! i) = HabitUpdate.name ?upd
                \<and> Habit.emoji (habits db' ! i) = HabitUpdate.emoji ?upd)
             \<and> (Habit.id (habits ?db ! i) \<noteq> 1 \<longrightarrow> habits db' ! i = habits ?db ! i)"
    and r: "HabitResponse.id r = 1" "HabitResponse.name r = HabitUpdate.name ?upd"
      "HabitResponse.emoji r = HabitUpdate.emoji ?upd"
    by blast
  from rows [rule_format, of 0] have r0: "Habit.id (habits db' ! 0) = 1 \<and> Habit.name (habits db' ! 0) = ''Jog''
      \<and> Habit.emoji (habits db' ! 0) = ''+'' \<and> Habit.created_at (habits db' ! 0) = 90"
    by simp
  from rows [rule_format, of 1] have r1: "habits db' ! 1 = \<lparr>Habit.id = 2, name = ''Read'', emoji = ''*'', created_at = 95\<rparr>"
    by simp
  from absent a present run cs r0 r1 r show ?thesis
    by (intro conjI exI [of _ db'] exI [of _ r]) simp_all
qed

text \<open>
  C9. The \<^verbatim>\<open>elif\<close> branch of the loop repeats the test of the \<^verbatim>\<open>if\<close> branch, so no
  iteration on any list and any cursor takes it, and \<^verbatim>\<open>calculate_streak\<close> equals the
  function whose loop has the counting branch and the \<^verbatim>\<open>break\<close> branch only.
\<close>

theorem calculate_streak_dead_branch:
  "Continue \<notin> set (streak_loop_trace cs current_date)
   \<and> streak_loop cs streak current_date = streak_loop_simplified cs streak current_date
   \<and> calculate_streak hid db today = calculate_streak_simplified hid db today"
  by (simp add: streak_loop_trace_no_continue streak_loop_simplified_eq
        calculate_streak_def calculate_streak_simplified_def Let_def)

theorem calculate_streak_dead_branch_witness:
  "streak_loop_trace [\<lparr>Completion.id = 2, habit_id = 1, completed_date = 100\<rparr>,
                      \<lparr>Completion.id = 1, habit_id = 1, completed_date = 98\<rparr>] 100 = [Count, Break]
   \<and> Continue \<notin> set (streak_loop_trace
                        [\<lparr>Completion.id = 2, habit_id = 1, completed_date = 100\<rparr>,
                         \<lparr>Completion.id = 1, habit_id = 1, completed_date = 98\<rparr>] 100)
   \<and> calculate_streak_simplified 1
       \<lparr>habits = [\<lparr>Habit.id = 1, name = ''Run'', emoji = ''*'', created_at = 90\<rparr>],
        completions = [\<lparr>Completion.id = 1, habit_id = 1, completed_date = 98\<rparr>,
                       \<lparr>Completion.id = 2, habit_id = 1, completed_date = 100\<rparr>]\<rparr> 100
     = calculate_streak 1
       \<lparr>habits = [\<lparr>Habit.id = 1, name = ''Run'', emoji = ''*'', created_at = 90\<rparr>],
        completions = [\<lparr>Completion.id = 1, habit_id = 1, completed_date = 98\<rparr>,
                       \<lparr>Completion.id = 2, habit_id = 1, completed_date = 100\<rparr>]\<rparr> 100"
  using calculate_streak_dead_branch
    [of "[\<lparr>Completion.id = 2, habit_id = 1, completed_date = 100\<rparr>,
          \<lparr>Completion.id = 1, habit_id = 1, completed_date = 98\<rparr>]" 100 0 1
        "\<lparr>habits = [\<lparr>Habit.id = 1, name = ''Run'', emoji = ''*'', created_at = 90\<rparr>],
          completions = [\<lparr>Completion.id = 1, habit_id = 1, completed_date = 98\<rparr>,
                         \<lparr>Completion.id = 2, habit_id = 1, completed_date = 100\<rparr>]\<rparr>" 100]
  by simp

text \<open>
  C10. \<^verbatim>\<open>delete_completion\<close> answers 404 and leaves the database as it is when no
  completion has the id. Otherwise the habits are unchanged and the completions that
  remain are those of another id, in their order; with unique primary keys that is the
  table with exactly one row, the one of the given id, taken out.
\<close>

theorem delete_completion_frame:
  "(cid \<notin> set (map Completion.id (completions db)) \<longrightarrow>
      delete_completion cid db = (db, Inl (HTTPException 404 ''Completion not found'')))
   \<and> (cid \<in> set (map Completion.id (completions db)) \<longrightarrow>
      (\<exists>db'. delete_completion cid db = (db', Inr ''Completion deleted successfully'')
         \<and> habits db' = habits db
         \<and> completions db' = filter (\<lambda>c. Completion.id c \<noteq> cid) (completions db)
         \<and> (primary_keys db \<longrightarrow>
              (\<exists>before c after. completions db = before @ c # after
                  \<and> Completion.id c = cid
                  \<and> completions db' = before @ after))))"
proof -
  have missing: "delete_completion cid db = (db, Inl (HTTPException 404 ''Completion not found''))"
    if "cid \<notin> set (map Completion.id (completions db))"
    using that find_None_ids [of Completion.id cid "completions db"]
    by (simp add: delete_completion_def)
  have present: "\<exists>db'. delete_completion cid db = (db', Inr ''Completion deleted successfully'')
         \<and> habits db' = habits db
         \<and> completions db' = filter (\<lambda>c. Completion.id c \<noteq> cid) (completions db)
         \<and> (primary_keys db \<longrightarrow>
              (\<exists>before c after. completions db = before @ c # after
                  \<and> Completion.id c = cid
                  \<and> completions db' = before @ after))"
    if "cid \<in> set (map Completion.id (completions db))"
  proof -
    from that obtain c where c: "find (\<lambda>c. Completion.id c = cid) (completions db) = Some c"
      and mem: "c \<in> set (completions db)" and cid: "Completion.id c = cid"
      using find_Some_ids [of cid Completion.id "completions db"] by blast
    let ?cs' = "filter (\<lambda>c. Completion.id c \<noteq> cid) (completions db)"
    let ?db' = "db\<lparr>completions := ?cs'\<rparr>"
    have run: "delete_completion cid db = (?db', Inr ''Completion deleted successfully'')"
      using c cid by (simp add: delete_completion_def)
    have one: "\<exists>before c after. completions db = before @ c # after
                  \<and> Completion.id c = cid \<and> ?cs' = before @ after"
      if pk: "primary_keys db"
    proof -
      from mem obtain before after where split: "completions db = before @ c # after"
        by (auto simp: in_set_conv_decomp)
      from pk have "distinct (map Completion.id (before @ c # after))"
        by (simp add: primary_keys_def split)
      then have "cid \<notin> set (map Completion.id before)" "cid \<notin> set (map Completion.id after)"
        using cid by auto
      then have "filter (\<lambda>c. Completion.id c \<noteq> cid) before = before"
        "filter (\<lambda>c. Completion.id c \<noteq> cid) after = after"
        by (auto simp: filter_id_conv)
      with split cid have "?cs' = before @ after" by simp
      with split cid show ?thesis by blast
    qed
    from run one show ?thesis by (intro exI [of _ ?db']) simp
  qed
  from missing present show ?thesis by blast
qed

theorem delete_completion_frame_witness:
  "7 \<notin> set (map Completion.id (completions
       \<lparr>habits = [\<lparr>Habit.id = 1, name = ''Run'', emoji = ''*'', created_at = 90\<rparr>],
        completions = [\<lparr>Completion.id = 1, habit_id = 1, completed_date = 99\<rparr>,
                       \<lparr>Completion.id = 2, habit_id = 1, completed_date = 100\<rparr>]\<rparr>))
   \<and> delete_completion 7
       \<lparr>habits = [\<lparr>Habit.id = 1, name = ''Run'', emoji = ''*'', created_at = 90\<rparr>],
        completions = [\<lparr>Completion.id = 1, habit_id = 1, completed_date = 99\<rparr>,
                       \<lparr>Completion.id = 2, habit_id = 1, completed_date = 100\<rparr>]\<rparr>
     = (\<lparr>habits = [\<lparr>Habit.id = 1, name = ''Run'', emoji = ''*'', created_at = 90\<rparr>],
        completions = [\<lparr>Completion.id = 1, habit_id = 1, completed_date = 99\<rparr>,
                       \<lparr>Completion.id = 2, habit_id = 1, completed_date = 100\<rparr>]\<rparr>,
        Inl (HTTPException 404 ''Completion not found''))
   \<and> primary_keys
       \<lparr>habits = [\<lparr>Habit.id = 1, name = ''Run'', emoji = ''*'', created_at = 90\<rparr>],
        completions = [\<lparr>Completion.id = 1, habit_id = 1, completed_date = 99\<rparr>,
                       \<lparr>Completion.id = 2, habit_id = 1, completed_date = 100\<rparr>]\<rparr>
   \<and> delete_completion 2
       \<lparr>habits = [\<lparr>Habit.id = 1, name = ''Run'', emoji = ''*'', created_at = 90\<rparr>],
        completions = [\<lparr>Completion.id = 1, habit_id = 1, completed_date = 99\<rparr>,
                       \<lparr>Completion.id = 2, habit_id = 1, completed_date = 100\<rparr>]\<rparr>
     = (\<lparr>habits = [\<lparr>Habit.id = 1, name = ''Run'', emoji = ''*'', created_at = 90\<rparr>],
        completions = [\<lparr>Completion.id = 1, habit_id = 1, completed_date = 99\<rparr>]\<rparr>,
        Inr ''Completion deleted successfully'')"
  using delete_completion_frame
     [of 7 "\<lparr>habits = [\<lparr>Habit.id = 1, name = ''Run'', emoji = ''*'', created_at = 90\<rparr>],
        completions = [\<lparr>Completion.id = 1, habit_id = 1, completed_date = 99\<rparr>,
                       \<lparr>Completion.id = 2, habit_id = 1, completed_date = 100\<rparr>]\<rparr>"]
    delete_completion_frame
     [of 2 "\<lparr>habits = [\<lparr>Habit.id = 1, name = ''Run'', emoji = ''*'', created_at = 90\<rparr>],
        completions = [\<lparr>Completion.id = 1, habit_id = 1, completed_date = 99\<rparr>,
                       \<lparr>Completion.id = 2, habit_id = 1, completed_date = 100\<rparr>]\<rparr>"]
  by (auto simp: primary_keys_def)

end
